theory Spec2Isabelle
  imports Main
begin

section \<open>JavaScript values and helpers\<close>

text \<open>
  The script keeps one global object \<open>appState\<close> and reads and writes the page. The
  model is a record holding both; every function of the script takes the record and
  returns it updated. An exception is a value: \<open>Threw m s\<close> carries the message of the
  thrown error and the state at the moment of the throw, since the assignments made before
  a throw persist in the global object.
\<close>

datatype jsval = Undefined | Str string | Num int

text \<open>Strict equality \<open>===\<close>: values of different types are never equal.\<close>

fun strict_eq :: "jsval \<Rightarrow> jsval \<Rightarrow> bool" where
  "strict_eq Undefined Undefined = True"
| "strict_eq (Str a) (Str b) = (a = b)"
| "strict_eq (Num a) (Num b) = (a = b)"
| "strict_eq _ _ = False"

text \<open>
  The message of an error object. A \<open>TypeError\<close> raised by the engine (reading a
  property of \<open>null\<close> or \<open>undefined\<close>) has a message worded by the engine:
  \<open>EngineMessage\<close>.
\<close>

datatype message = Message string | EngineMessage

definition digit_char :: "nat \<Rightarrow> char" where
  "digit_char n = ''0123456789'' ! (n mod 10)"

text \<open>A non-negative integer inside a template literal: its decimal digits.\<close>

fun string_of_nat :: "nat \<Rightarrow> string" where
  "string_of_nat n =
     (if n < 10 then [digit_char n] else string_of_nat (n div 10) @ [digit_char n])"

declare string_of_nat.simps [simp del]

text \<open>Array indexing \<open>xs[i]\<close>: \<open>undefined\<close> (here \<open>None\<close>) out of range.\<close>

definition nth_js :: "'a list \<Rightarrow> int \<Rightarrow> 'a option" where
  "nth_js xs i = (if 0 \<le> i \<and> i < int (length xs) then Some (xs ! nat i) else None)"

text \<open>\<open>String.prototype.split\<close> with a one-character separator: never an empty array.\<close>

fun split_on :: "char \<Rightarrow> string \<Rightarrow> string list" where
  "split_on c [] = [[]]"
| "split_on c (x # xs) =
     (if x = c then [] # split_on c xs
      else (case split_on c xs of
              [] \<Rightarrow> [[x]]
            | w # ws \<Rightarrow> (x # w) # ws))"

text \<open>
  \<open>toLowerCase\<close> on the letters A to Z. Characters outside ASCII are left as they are;
  no lower-case mapping of such a character yields a letter of the four extensions below.
\<close>

definition lower_char :: "char \<Rightarrow> char" where
  "lower_char c =
     (case map_of (zip ''ABCDEFGHIJKLMNOPQRSTUVWXYZ'' ''abcdefghijklmnopqrstuvwxyz'') c of
        None \<Rightarrow> c
      | Some d \<Rightarrow> d)"

definition toLowerCase :: "string \<Rightarrow> string" where
  "toLowerCase s = map lower_char s"

section \<open>Data\<close>

record js_file =
  file_name :: string
  file_size :: nat

text \<open>
  A question as the service's JSON gives it: \<open>type\<close>, \<open>question\<close>, and the optional
  \<open>options\<close> and \<open>explanation\<close> (\<open>None\<close> when the property is missing). The texts are
  plain text; markup inside them is outside the model.
\<close>

record question =
  qtype :: string
  qtext :: string
  options :: "string list option"
  explanation :: "string option"

text \<open>
  The state: the five properties of \<open>appState\<close> (lines 2 to 8), then the part of the page
  the script reads or writes. \<open>radios\<close> are the radio inputs inside \<open>quizContent\<close>, in
  document order, each with its \<open>value\<close> attribute and whether it is checked;
  \<open>shortAnswerInput\<close> is the value of the text input of that id when the page has one.
  \<open>errorMessage\<close> and \<open>successMessage\<close> hold the \<open>textContent\<close> last written (the timer
  of \<open>showError\<close> only hides the element later).
\<close>

record world =
  files :: "js_file list"
  quiz :: "question list option"
  currentQuestionIndex :: int
  answers :: "int \<rightharpoonup> jsval"
  isGenerating :: bool
  fileListShown :: bool
  settingsSectionShown :: bool
  quizSectionShown :: bool
  loadingOverlayShown :: bool
  errorMessage :: "message option"
  successMessage :: "string option"
  currentQuestionText :: int
  totalQuestionsText :: nat
  radios :: "(string \<times> bool) list"
  shortAnswerInput :: "string option"
  explanationText :: "string option"
  prevBtnDisabled :: bool
  nextBtnDisabled :: bool
  questionCount :: string
  difficulty :: string
  questionTypes :: "string list"
  includeExplanations :: bool

datatype outcome = Returned world | Threw message world

text \<open>The state an event handler leaves behind, whether it returned or threw.\<close>

fun world_of :: "outcome \<Rightarrow> world" where
  "world_of (Returned s) = s"
| "world_of (Threw m s) = s"


text \<open>
  \<open>appState\<close> as the script creates it. The markup of the page is not part of the
  sources: the page starts here with every section hidden and every input empty.
\<close>

definition initial :: world where
  "initial =
     \<lparr> files = [], quiz = None, currentQuestionIndex = 0, answers = Map.empty,
       isGenerating = False,
       fileListShown = False, settingsSectionShown = False, quizSectionShown = False,
       loadingOverlayShown = False, errorMessage = None, successMessage = None,
       currentQuestionText = 0, totalQuestionsText = 0, radios = [],
       shortAnswerInput = None, explanationText = None,
       prevBtnDisabled = False, nextBtnDisabled = False,
       questionCount = ''10'', difficulty = ''medium'',
       questionTypes = [''multiple_choice''], includeExplanations = True \<rparr>"

section \<open>UI helpers (lines 348 to 366)\<close>

definition showLoading :: "bool \<Rightarrow> world \<Rightarrow> world" where
  "showLoading show s = s\<lparr>loadingOverlayShown := show\<rparr>"

definition showError :: "message \<Rightarrow> world \<Rightarrow> world" where
  "showError m s = s\<lparr>errorMessage := Some m\<rparr>"

definition showSuccess :: "string \<Rightarrow> world \<Rightarrow> world" where
  "showSuccess m s = s\<lparr>successMessage := Some m\<rparr>"

section \<open>File upload (lines 70 to 117)\<close>

definition validExtensions :: "string list" where
  "validExtensions = [''pdf'', ''docx'', ''txt'', ''doc'']"

definition fileExtension :: "js_file \<Rightarrow> string" where
  "fileExtension f = toLowerCase (last (split_on CHR ''.'' (file_name f)))"

text \<open>The predicate of the \<open>filter\<close> call in \<open>addFiles\<close>.\<close>

definition validFile :: "js_file \<Rightarrow> bool" where
  "validFile f =
     (fileExtension f \<in> set validExtensions \<and> file_size f \<le> 10 * 1024 * 1024)"

text \<open>
  \<open>displayFiles\<close> shows the list or the upload area; the markup it writes into
  \<open>filesContainer\<close> (names, and sizes formatted with floating-point logarithms) is not
  modelled, nor is scrolling.
\<close>

definition displayFiles :: "world \<Rightarrow> world" where
  "displayFiles s =
     (if length (files s) = 0 then s\<lparr>fileListShown := False\<rparr>
      else s\<lparr>fileListShown := True\<rparr>)"

definition addFiles :: "js_file list \<Rightarrow> world \<Rightarrow> world" where
  "addFiles fs s =
     (let validFiles = filter validFile fs in
      if length validFiles = 0 then
        showError (Message ''Please select valid files (PDF, DOCX, TXT, DOC) under 10MB'') s
      else displayFiles (s\<lparr>files := files s @ validFiles\<rparr>))"

text \<open>\<open>splice(index, 1)\<close>: a negative index counts from the end; out of range removes nothing.\<close>

definition splice1 :: "int \<Rightarrow> 'a list \<Rightarrow> 'a list" where
  "splice1 index xs =
     (let n = int (length xs);
          start = (if index < 0 then max (n + index) 0 else min index n)
      in if start < n then take (nat start) xs @ drop (nat start + 1) xs else xs)"

definition removeFile :: "int \<Rightarrow> world \<Rightarrow> world" where
  "removeFile index s = displayFiles (s\<lparr>files := splice1 index (files s)\<rparr>)"

definition clearFiles :: "world \<Rightarrow> world" where
  "clearFiles s = (displayFiles (s\<lparr>files := []\<rparr>))\<lparr>settingsSectionShown := False\<rparr>"

definition handleGenerateQuiz :: "world \<Rightarrow> world" where
  "handleGenerateQuiz s =
     (if length (files s) = 0 then showError (Message ''Please select at least one file'') s
      else s\<lparr>settingsSectionShown := True\<rparr>)"

section \<open>Showing a question (lines 179 to 285, 316 to 319)\<close>

text \<open>The expression \<open>appState.quiz[appState.currentQuestionIndex]\<close> of line 192.\<close>

definition currentQuestion :: "world \<Rightarrow> question option" where
  "currentQuestion s =
     (case quiz s of None \<Rightarrow> None | Some qs \<Rightarrow> nth_js qs (currentQuestionIndex s))"

text \<open>\<open>savedAnswer || ''\<close> inside the template literal of the text input.\<close>

fun or_empty :: "jsval \<Rightarrow> string" where
  "or_empty Undefined = ''''"
| "or_empty (Str t) = t"
| "or_empty (Num n) =
     (if n = 0 then '''' else if n < 0 then CHR ''-'' # string_of_nat (nat (- n))
      else string_of_nat (nat n))"

text \<open>
  What the page reads back from \<open>value="..."\<close>: the text up to the first double quote.
  The parser also decodes character references; the model does not, so for a saved text
  holding \<open>&\<close> the restored value can differ from the page's. The statements below are
  about \<open>answers\<close> and the radios, not about the restored text.
\<close>

definition attr_value :: "string \<Rightarrow> string" where
  "attr_value t = takeWhile (\<lambda>c. c \<noteq> CHR 0x22) t"

text \<open>
  The radio inputs of an option list, lines 212 to 218 and 250 to 256: one per option,
  value the option's index, checked when \<open>savedAnswer === index\<close>.
\<close>

definition option_radios :: "jsval \<Rightarrow> string list \<Rightarrow> (string \<times> bool) list" where
  "option_radios savedAnswer os =
     map (\<lambda>index. (string_of_nat index, strict_eq savedAnswer (Num (int index))))
       [0 ..< length os]"

text \<open>
  The \<open>switch\<close> on \<open>question.type\<close>: the radios and the text input of the card, or
  \<open>None\<close> when \<open>question.options.map\<close> is reached with \<open>options\<close> missing (a TypeError).
\<close>

definition render_inputs :: "question \<Rightarrow> jsval \<Rightarrow> ((string \<times> bool) list \<times> string option) option" where
  "render_inputs q savedAnswer =
     (if qtype q = ''multiple_choice'' then
        (case options q of None \<Rightarrow> None
         | Some os \<Rightarrow> Some (option_radios savedAnswer os, None))
      else if qtype q = ''true_false'' then
        Some ([(''true'', strict_eq savedAnswer (Str ''true'')),
               (''false'', strict_eq savedAnswer (Str ''false''))], None)
      else if qtype q = ''short_answer'' then
        Some ([], Some (attr_value (or_empty savedAnswer)))
      else if qtype q = ''fill_in_the_blank'' then
        (case options q of None \<Rightarrow> None
         | Some os \<Rightarrow> Some (option_radios savedAnswer os, None))
      else Some ([], None))"

text \<open>The value \<open>savedAnswer\<close> of line 206: \<open>undefined\<close> when the index has no entry.\<close>

definition savedAnswer :: "world \<Rightarrow> jsval" where
  "savedAnswer s =
     (case answers s (currentQuestionIndex s) of None \<Rightarrow> Undefined | Some v \<Rightarrow> v)"

definition displayQuestion :: "world \<Rightarrow> outcome" where
  "displayQuestion s =
     (case quiz s of
        None \<Rightarrow> Returned (showError (Message ''No questions generated'') s)
      | Some qs \<Rightarrow>
          if length qs = 0 then Returned (showError (Message ''No questions generated'') s)
          else
            (let s1 = s\<lparr>currentQuestionText := currentQuestionIndex s + 1,
                        totalQuestionsText := length qs\<rparr>
             in case currentQuestion s of
                  None \<Rightarrow> Threw EngineMessage s1
                | Some q \<Rightarrow>
                    (case render_inputs q (savedAnswer s) of
                       None \<Rightarrow> Threw EngineMessage s1
                     | Some (rs, inp) \<Rightarrow>
                         Returned (s1\<lparr>radios := rs, shortAnswerInput := inp,
                                      explanationText :=
                                        (case explanation q of
                                           None \<Rightarrow> None
                                         | Some e \<Rightarrow> if e = '''' then None else Some e)\<rparr>))))"

definition updateNavigation :: "world \<Rightarrow> outcome" where
  "updateNavigation s =
     (let s1 = s\<lparr>prevBtnDisabled := (currentQuestionIndex s = 0)\<rparr>
      in case quiz s of
           None \<Rightarrow> Threw EngineMessage s1
         | Some qs \<Rightarrow>
             Returned (s1\<lparr>nextBtnDisabled := (currentQuestionIndex s = int (length qs) - 1)\<rparr>))"

text \<open>Sequencing: the second call runs only when the first returned.\<close>

fun and_then :: "outcome \<Rightarrow> (world \<Rightarrow> outcome) \<Rightarrow> outcome" where
  "and_then (Returned s) f = f s"
| "and_then (Threw m s) f = Threw m s"

definition displayQuiz :: "world \<Rightarrow> outcome" where
  "displayQuiz s = and_then (displayQuestion (s\<lparr>quizSectionShown := True\<rparr>)) updateNavigation"

section \<open>Answers and navigation (lines 287 to 314, 340 to 345)\<close>

definition saveAnswer :: "world \<Rightarrow> world" where
  "saveAnswer s =
     (case filter snd (radios s) of
        r # _ \<Rightarrow> s\<lparr>answers := (answers s)(currentQuestionIndex s \<mapsto> Str (fst r))\<rparr>
      | [] \<Rightarrow>
          (case shortAnswerInput s of
             Some t \<Rightarrow> s\<lparr>answers := (answers s)(currentQuestionIndex s \<mapsto> Str t)\<rparr>
           | None \<Rightarrow> s))"

definition previousQuestion :: "world \<Rightarrow> outcome" where
  "previousQuestion s =
     (if currentQuestionIndex s > 0 then
        (let s1 = saveAnswer s;
             s2 = s1\<lparr>currentQuestionIndex := currentQuestionIndex s1 - 1\<rparr>
         in and_then (displayQuestion s2) updateNavigation)
      else Returned s)"

definition nextQuestion :: "world \<Rightarrow> outcome" where
  "nextQuestion s =
     (case quiz s of
        None \<Rightarrow> Threw EngineMessage s
      | Some qs \<Rightarrow>
          if currentQuestionIndex s < int (length qs) - 1 then
            (let s1 = saveAnswer s;
                 s2 = s1\<lparr>currentQuestionIndex := currentQuestionIndex s1 + 1\<rparr>
             in and_then (displayQuestion s2) updateNavigation)
          else Returned s)"

definition retakeQuiz :: "world \<Rightarrow> outcome" where
  "retakeQuiz s =
     and_then (displayQuestion (s\<lparr>currentQuestionIndex := 0, answers := Map.empty\<rparr>))
       updateNavigation"

text \<open>
  The listeners of lines 278 to 284. Choosing the radio at position \<open>k\<close> checks it,
  unchecks the others of the group and fires \<open>change\<close>; typing sets the value of the
  text input and fires \<open>input\<close>.
\<close>

definition clickRadio :: "nat \<Rightarrow> world \<Rightarrow> world" where
  "clickRadio k s =
     (if k < length (radios s) then
        saveAnswer (s\<lparr>radios := map (\<lambda>i. (fst (radios s ! i), i = k)) [0 ..< length (radios s)]\<rparr>)
      else s)"

definition inputText :: "string \<Rightarrow> world \<Rightarrow> world" where
  "inputText t s =
     (case shortAnswerInput s of
        None \<Rightarrow> s
      | Some _ \<Rightarrow> saveAnswer (s\<lparr>shortAnswerInput := Some t\<rparr>))"

section \<open>Quiz generation (lines 138 to 177)\<close>

text \<open>The form data posted to \<open>/generate-quiz\<close>.\<close>

record request =
  req_files :: "js_file list"
  question_count :: string
  req_difficulty :: string
  question_types :: "string list"
  include_explanations :: bool

text \<open>
  What the two \<open>await\<close>s can deliver. \<open>fetch\<close> rejects with an error (its message),
  or resolves with a response whose \<open>ok\<close> flag is given. \<open>response.json()\<close> then
  \<^item> rejects, the body not being JSON (\<open>Unparsable\<close>, with the error's message);
  \<^item> gives \<open>null\<close> (\<open>JsonNull\<close>): reading \<open>data.quiz\<close> throws a TypeError;
  \<^item> gives a number, a string, a boolean or an array (\<open>JsonOther\<close>): \<open>data.quiz\<close> is
    \<open>undefined\<close> and nothing throws;
  \<^item> gives an object (\<open>JsonObject\<close>): \<open>data.quiz\<close> is its \<open>quiz\<close> property, a list
    of questions, or \<open>None\<close> when the property is missing or \<open>null\<close>.
  A \<open>quiz\<close> property of another type, or a list whose elements are not objects of the
  shape of \<open>question\<close>, is outside the model.
\<close>

datatype json_body =
    Unparsable message
  | JsonNull
  | JsonOther
  | JsonObject "question list option"

datatype response = FetchFailed message | Response bool json_body

text \<open>
  \<open>generateQuiz\<close> is one asynchronous function; it is split where it suspends. The part
  before \<open>await fetch\<close> shows the overlay, hides the quiz and sends the request. Nothing
  in it reads \<open>isGenerating\<close> or the overlay, and nothing in the script writes
  \<open>isGenerating\<close>.
\<close>

definition generateQuiz_send :: "world \<Rightarrow> world \<times> request" where
  "generateQuiz_send s =
     ((showLoading True s)\<lparr>quizSectionShown := False\<rparr>,
      \<lparr> req_files = files s, question_count = questionCount s,
        req_difficulty = difficulty s, question_types = questionTypes s,
        include_explanations = includeExplanations s \<rparr>)"

text \<open>The rest of the \<open>try\<close> block, run when the request settles.\<close>

definition generateQuiz_try :: "response \<Rightarrow> world \<Rightarrow> outcome" where
  "generateQuiz_try r s =
     (case r of
        FetchFailed m \<Rightarrow> Threw m s
      | Response ok body \<Rightarrow>
          if \<not> ok then Threw (Message ''Failed to generate quiz'') s
          else
            (case body of
               Unparsable m \<Rightarrow> Threw m s
             | JsonNull \<Rightarrow> Threw EngineMessage s
             | JsonOther \<Rightarrow>
                 and_then
                   (displayQuiz (s\<lparr>quiz := None, currentQuestionIndex := 0, answers := Map.empty\<rparr>))
                   (\<lambda>s'. Returned (showSuccess ''Quiz generated successfully!'' s'))
             | JsonObject q \<Rightarrow>
                 and_then
                   (displayQuiz (s\<lparr>quiz := q, currentQuestionIndex := 0, answers := Map.empty\<rparr>))
                   (\<lambda>s'. Returned (showSuccess ''Quiz generated successfully!'' s'))))"

text \<open>\<open>catch\<close> shows the message of whatever was thrown; \<open>finally\<close> hides the overlay.\<close>

definition generateQuiz_settle :: "response \<Rightarrow> world \<Rightarrow> world" where
  "generateQuiz_settle r s =
     (case generateQuiz_try r s of
        Returned s' \<Rightarrow> showLoading False s'
      | Threw m s' \<Rightarrow> showLoading False (showError m s'))"

section \<open>Export (lines 321 to 338)\<close>

text \<open>
  \<open>Date.prototype.toISOString\<close> of a time value (milliseconds since the epoch, UTC):
  the civil date of the day number, then the time of day.
\<close>

definition civil_from_days :: "int \<Rightarrow> int \<times> int \<times> int" where
  "civil_from_days days =
     (let z = days + 719468;
          era = z div 146097;
          doe = z - era * 146097;
          yoe = (doe - doe div 1460 + doe div 36524 - doe div 146096) div 365;
          doy = doe - (365 * yoe + yoe div 4 - yoe div 100);
          mp = (5 * doy + 2) div 153;
          d = doy - (153 * mp + 2) div 5 + 1;
          m = (if mp < 10 then mp + 3 else mp - 9);
          y = yoe + era * 400 + (if m \<le> 2 then 1 else 0)
      in (y, m, d))"

fun pad :: "nat \<Rightarrow> string \<Rightarrow> string" where
  "pad w t = replicate (w - length t) (CHR ''0'') @ t"

definition toISOString :: "int \<Rightarrow> string" where
  "toISOString t =
     (let (y, m, d) = civil_from_days (t div 86400000);
          ms = t mod 86400000;
          year = (if 0 \<le> y \<and> y \<le> 9999 then pad 4 (string_of_nat (nat y))
                  else (if y < 0 then CHR ''-'' else CHR ''+'') # pad 6 (string_of_nat (nat \<bar>y\<bar>)))
      in year @ ''-'' @ pad 2 (string_of_nat (nat m)) @ ''-'' @ pad 2 (string_of_nat (nat d))
         @ ''T'' @ pad 2 (string_of_nat (nat (ms div 3600000)))
         @ '':'' @ pad 2 (string_of_nat (nat (ms div 60000 mod 60)))
         @ '':'' @ pad 2 (string_of_nat (nat (ms div 1000 mod 60)))
         @ ''.'' @ pad 3 (string_of_nat (nat (ms mod 1000))) @ ''Z'')"

text \<open>The object \<open>quizData\<close> handed to \<open>JSON.stringify\<close>.\<close>

record quizData =
  questions :: "question list option"
  export_answers :: "int \<rightharpoonup> jsval"
  timestamp :: string

text \<open>
  \<open>now\<close> is the clock reading of \<open>new Date()\<close> when the function runs. The download
  itself (the blob, the link and its file name) is not modelled.
\<close>

definition downloadQuiz :: "int \<Rightarrow> world \<Rightarrow> quizData \<times> world" where
  "downloadQuiz now s =
     (\<lparr> questions = quiz s, export_answers = answers s, timestamp = toISOString now \<rparr>,
      showSuccess ''Quiz downloaded successfully!'' s)"

section \<open>Runs of the page\<close>

text \<open>
  What can happen to the page: the user's actions, each running the listener wired to
  it, and the settling of a request. An exception that leaves a listener is reported by
  the browser and the page goes on with the state as it is.
\<close>

datatype event =
    AddFiles "js_file list"
  | RemoveFile int
  | ClearFiles
  | HandleGenerateQuiz
  | GenerateQuiz
  | Settle response
  | ClickRadio nat
  | InputText string
  | PreviousQuestion
  | NextQuestion
  | DownloadQuiz int
  | RetakeQuiz

fun step :: "event \<Rightarrow> world \<Rightarrow> world" where
  "step (AddFiles fs) s = addFiles fs s"
| "step (RemoveFile i) s = removeFile i s"
| "step ClearFiles s = clearFiles s"
| "step HandleGenerateQuiz s = handleGenerateQuiz s"
| "step GenerateQuiz s = fst (generateQuiz_send s)"
| "step (Settle r) s = generateQuiz_settle r s"
| "step (ClickRadio k) s = clickRadio k s"
| "step (InputText t) s = inputText t s"
| "step PreviousQuestion s = world_of (previousQuestion s)"
| "step NextQuestion s = world_of (nextQuestion s)"
| "step (DownloadQuiz now) s = snd (downloadQuiz now s)"
| "step RetakeQuiz s = world_of (retakeQuiz s)"

fun run :: "event list \<Rightarrow> world \<Rightarrow> world" where
  "run [] s = s"
| "run (e # es) s = run es (step e s)"

text \<open>Navigation alone: the two buttons, pressed in any order.\<close>

datatype direction = Back | Forward

fun navigate1 :: "direction \<Rightarrow> world \<Rightarrow> outcome" where
  "navigate1 Back s = previousQuestion s"
| "navigate1 Forward s = nextQuestion s"



text \<open>
  The questions of the data model: one of type \<open>multiple_choice\<close> or
  \<open>fill_in_the_blank\<close> comes with its list of options.
\<close>

definition choice_question :: "question \<Rightarrow> bool" where
  "choice_question q = (qtype q = ''multiple_choice'' \<or> qtype q = ''fill_in_the_blank'')"

definition has_options :: "question \<Rightarrow> bool" where
  "has_options q = (if choice_question q then options q \<noteq> None else True)"



section \<open>Example data\<close>

definition notes_pdf :: js_file where
  "notes_pdf = \<lparr> file_name = ''Notes.v2.PDF'', file_size = 2048 \<rparr>"

definition movie_mp4 :: js_file where
  "movie_mp4 = \<lparr> file_name = ''movie.mp4'', file_size = 2048 \<rparr>"

definition huge_txt :: js_file where
  "huge_txt = \<lparr> file_name = ''huge.txt'', file_size = 10485761 \<rparr>"

definition q_choice :: question where
  "q_choice = \<lparr> qtype = ''multiple_choice'', qtext = ''Capital of France?'',
                 options = Some [''Rome'', ''Paris'', ''Oslo''], explanation = Some ''Paris.'' \<rparr>"

definition q_bool :: question where
  "q_bool = \<lparr> qtype = ''true_false'', qtext = ''Water is wet.'',
               options = None, explanation = None \<rparr>"

definition q_short :: question where
  "q_short = \<lparr> qtype = ''short_answer'', qtext = ''Name a city.'',
                options = None, explanation = None \<rparr>"



definition quiz3 :: "question list" where
  "quiz3 = [q_choice, q_bool, q_short]"

definition uploaded :: world where
  "uploaded = addFiles [notes_pdf] initial"

text \<open>The page after the service answered a request with \<open>quiz3\<close>.\<close>

definition loaded3 :: world where
  "loaded3 = generateQuiz_settle (Response True (JsonObject (Some quiz3))) uploaded"



text \<open>Then the user chose the second option of the first question.\<close>

definition answered3 :: world where
  "answered3 = clickRadio 1 loaded3"


section \<open>What the display functions leave alone\<close>

lemma world_of_and_then:
  "world_of (and_then r f) = (case r of Returned s \<Rightarrow> world_of (f s) | Threw m s \<Rightarrow> s)"
  by (cases r) simp_all

lemma displayQuestion_keeps:
  "files (world_of (displayQuestion s)) = files s"
  "quiz (world_of (displayQuestion s)) = quiz s"
  "currentQuestionIndex (world_of (displayQuestion s)) = currentQuestionIndex s"
  "answers (world_of (displayQuestion s)) = answers s"
  by (simp_all add: displayQuestion_def showError_def Let_def split: option.splits prod.splits)

lemma updateNavigation_keeps:
  "files (world_of (updateNavigation s)) = files s"
  "quiz (world_of (updateNavigation s)) = quiz s"
  "currentQuestionIndex (world_of (updateNavigation s)) = currentQuestionIndex s"
  "answers (world_of (updateNavigation s)) = answers s"
  by (simp_all add: updateNavigation_def Let_def split: option.splits)

lemma show_keeps:
  "files (world_of (and_then (displayQuestion s) updateNavigation)) = files s"
  "quiz (world_of (and_then (displayQuestion s) updateNavigation)) = quiz s"
  "currentQuestionIndex (world_of (and_then (displayQuestion s) updateNavigation)) = currentQuestionIndex s"
  "answers (world_of (and_then (displayQuestion s) updateNavigation)) = answers s"
  using displayQuestion_keeps [of s]
  by (cases "displayQuestion s"; simp add: updateNavigation_keeps)+

lemma saveAnswer_keeps:
  "files (saveAnswer s) = files s"
  "quiz (saveAnswer s) = quiz s"
  "currentQuestionIndex (saveAnswer s) = currentQuestionIndex s"
  "radios (saveAnswer s) = radios s"
  "shortAnswerInput (saveAnswer s) = shortAnswerInput s"
  by (simp_all add: saveAnswer_def split: list.splits option.splits)

lemma previousQuestion_keeps:
  "files (world_of (previousQuestion s)) = files s"
  "quiz (world_of (previousQuestion s)) = quiz s"
  by (simp_all add: previousQuestion_def Let_def show_keeps saveAnswer_keeps)

lemma nextQuestion_keeps:
  "files (world_of (nextQuestion s)) = files s"
  "quiz (world_of (nextQuestion s)) = quiz s"
  by (simp_all add: nextQuestion_def Let_def show_keeps saveAnswer_keeps split: option.splits)

lemma retakeQuiz_keeps:
  "files (world_of (retakeQuiz s)) = files s"
  "quiz (world_of (retakeQuiz s)) = quiz s"
  by (simp_all add: retakeQuiz_def show_keeps)

lemma displayQuiz_keeps:
  "files (world_of (displayQuiz s)) = files s"
  "quiz (world_of (displayQuiz s)) = quiz s"
  "currentQuestionIndex (world_of (displayQuiz s)) = currentQuestionIndex s"
  "answers (world_of (displayQuiz s)) = answers s"
  by (simp_all add: displayQuiz_def show_keeps)

lemma generateQuiz_try_files: "files (world_of (generateQuiz_try r s)) = files s"
proof -
  have "files (world_of (and_then (displayQuiz s') (\<lambda>s'. Returned (showSuccess m s')))) = files s'" for s' m
    using displayQuiz_keeps(1) [of s']
    by (cases "displayQuiz s'") (simp_all add: showSuccess_def)
  then show ?thesis
    by (simp add: generateQuiz_try_def split: response.splits json_body.splits)
qed

lemma generateQuiz_settle_files: "files (generateQuiz_settle r s) = files s"
  using generateQuiz_try_files [of r s]
  by (cases "generateQuiz_try r s") (simp_all add: generateQuiz_settle_def showLoading_def showError_def)

lemma clickRadio_files: "files (clickRadio k s) = files s"
  by (simp add: clickRadio_def saveAnswer_keeps)

lemma inputText_files: "files (inputText t s) = files s"
  by (simp add: inputText_def saveAnswer_keeps split: option.splits)

section \<open>The uploaded files\<close>

lemma set_splice1: "set (splice1 i xs) \<subseteq> set xs"
  using set_take_subset [of _ xs] set_drop_subset [of _ xs]
  by (auto simp add: splice1_def Let_def)

lemma addFiles_files:
  "files (addFiles fs s) = (if filter validFile fs = [] then files s else files s @ filter validFile fs)"
  by (simp add: addFiles_def Let_def showError_def displayFiles_def)

lemma step_files_valid:
  assumes "\<forall>f \<in> set (files s). validFile f"
  shows "\<forall>f \<in> set (files (step e s)). validFile f"
proof (cases e)
  case (AddFiles fs)
  then show ?thesis using assms by (auto simp add: addFiles_files)
next
  case (RemoveFile i)
  then show ?thesis using assms set_splice1 [of i "files s"]
    by (auto simp add: removeFile_def displayFiles_def)
next
  case ClearFiles
  then show ?thesis by (simp add: clearFiles_def displayFiles_def)
qed (use assms in \<open>simp_all add: handleGenerateQuiz_def showError_def generateQuiz_send_def
      showLoading_def generateQuiz_settle_files clickRadio_files inputText_files
      previousQuestion_keeps nextQuestion_keeps retakeQuiz_keeps downloadQuiz_def showSuccess_def\<close>)

lemma run_files_valid:
  "\<forall>f \<in> set (files s). validFile f \<Longrightarrow> \<forall>f \<in> set (files (run es s)). validFile f"
proof (induction es arbitrary: s)
  case Nil
  then show ?case by simp
next
  case (Cons e es)
  from Cons.prems have "\<forall>f \<in> set (files (step e s)). validFile f"
    by (rule step_files_valid)
  then show ?case using Cons.IH by simp
qed

lemma validFile_iff:
  "validFile f \<longleftrightarrow>
     toLowerCase (last (split_on CHR ''.'' (file_name f))) \<in> {''pdf'', ''docx'', ''txt'', ''doc''}
     \<and> file_size f \<le> 10485760"
  by (auto simp add: validFile_def validExtensions_def fileExtension_def)

lemma valid_examples:
  "validFile notes_pdf" "\<not> validFile movie_mp4" "\<not> validFile huge_txt"
  by (simp_all add: validFile_def notes_pdf_def movie_mp4_def huge_txt_def fileExtension_def
        toLowerCase_def lower_char_def validExtensions_def)

text \<open>
  C9. Every file in \<open>appState.files\<close> has a name whose last dot-separated part, in lower
  case, is one of pdf, docx, txt, doc, and a size of at most 10 MiB: this holds after any
  run of the page, and any run keeps it. \<open>addFiles\<close> appends exactly the input files that
  pass the filter, in their order; when none passes, the state is untouched apart from
  the error message shown.
\<close>

theorem addFiles_keeps_only_valid_files:
  "(\<forall>f \<in> set (files (run es initial)).
       toLowerCase (last (split_on CHR ''.'' (file_name f))) \<in> {''pdf'', ''docx'', ''txt'', ''doc''}
       \<and> file_size f \<le> 10 * 1024 * 1024)
   \<and> ((\<forall>f \<in> set (files s). validFile f) \<longrightarrow> (\<forall>f \<in> set (files (run es s)). validFile f))
   \<and> (filter validFile fs \<noteq> [] \<longrightarrow> files (addFiles fs s) = files s @ filter validFile fs)
   \<and> (filter validFile fs = [] \<longrightarrow>
        addFiles fs s =
          s\<lparr>errorMessage := Some (Message ''Please select valid files (PDF, DOCX, TXT, DOC) under 10MB'')\<rparr>)"
proof -
  have "\<forall>f \<in> set (files initial). validFile f" by (simp add: initial_def)
  then have "\<forall>f \<in> set (files (run es initial)). validFile f" by (rule run_files_valid)
  then have a: "\<forall>f \<in> set (files (run es initial)).
       toLowerCase (last (split_on CHR ''.'' (file_name f))) \<in> {''pdf'', ''docx'', ''txt'', ''doc''}
       \<and> file_size f \<le> 10 * 1024 * 1024"
    by (simp add: validFile_iff)
  have b: "(\<forall>f \<in> set (files s). validFile f) \<longrightarrow> (\<forall>f \<in> set (files (run es s)). validFile f)"
    using run_files_valid by blast
  have c: "filter validFile fs \<noteq> [] \<longrightarrow> files (addFiles fs s) = files s @ filter validFile fs"
    by (simp add: addFiles_files)
  have d: "filter validFile fs = [] \<longrightarrow>
        addFiles fs s =
          s\<lparr>errorMessage := Some (Message ''Please select valid files (PDF, DOCX, TXT, DOC) under 10MB'')\<rparr>"
    by (simp add: addFiles_def showError_def)
  from a b c d show ?thesis by blast
qed

theorem addFiles_keeps_only_valid_files_witness:
  "list_all validFile (files initial)
   \<and> filter validFile [movie_mp4, notes_pdf, huge_txt] \<noteq> []
   \<and> files (addFiles [movie_mp4, notes_pdf, huge_txt] initial) = [notes_pdf]
   \<and> list_all validFile (files (run [AddFiles [notes_pdf, huge_txt], RemoveFile 5] initial))
   \<and> filter validFile [movie_mp4, huge_txt] = []
   \<and> addFiles [movie_mp4, huge_txt] initial =
       initial\<lparr>errorMessage :=
         Some (Message ''Please select valid files (PDF, DOCX, TXT, DOC) under 10MB'')\<rparr>"
  using addFiles_keeps_only_valid_files
          [of "[AddFiles [notes_pdf, huge_txt], RemoveFile 5]" initial "[movie_mp4, notes_pdf, huge_txt]"]
        addFiles_keeps_only_valid_files [of "[]" initial "[movie_mp4, huge_txt]"]
  by (simp add: valid_examples initial_def list_all_iff)

section \<open>Loading a quiz, retaking it\<close>

lemma settle_loaded:
  "quiz (generateQuiz_settle (Response True (JsonObject q)) s) = q"
  "currentQuestionIndex (generateQuiz_settle (Response True (JsonObject q)) s) = 0"
  "answers (generateQuiz_settle (Response True (JsonObject q)) s) = Map.empty"
proof -
  let ?s0 = "s\<lparr>quiz := q, currentQuestionIndex := 0, answers := Map.empty\<rparr>"
  have a: "quiz (world_of (displayQuiz ?s0)) = q"
       "currentQuestionIndex (world_of (displayQuiz ?s0)) = 0"
       "answers (world_of (displayQuiz ?s0)) = Map.empty"
    by (simp_all add: displayQuiz_keeps)
  show "quiz (generateQuiz_settle (Response True (JsonObject q)) s) = q"
       "currentQuestionIndex (generateQuiz_settle (Response True (JsonObject q)) s) = 0"
       "answers (generateQuiz_settle (Response True (JsonObject q)) s) = Map.empty"
    using a
    by (cases "displayQuiz ?s0";
        simp add: generateQuiz_settle_def generateQuiz_try_def showLoading_def showError_def
          showSuccess_def)+
qed

lemma settle_other:
  "generateQuiz_settle (Response True JsonOther) s
     = generateQuiz_settle (Response True (JsonObject None)) s"
  by (simp add: generateQuiz_settle_def generateQuiz_try_def)

lemma loaded3_app:
  "quiz loaded3 = Some quiz3" "currentQuestionIndex loaded3 = 0" "answers loaded3 = Map.empty"
  by (simp_all add: loaded3_def settle_loaded)

lemma loaded3_radios: "radios loaded3 = [(''0'', False), (''1'', False), (''2'', False)]"
  by (simp add: loaded3_def generateQuiz_settle_def generateQuiz_try_def displayQuiz_def
      displayQuestion_def updateNavigation_def currentQuestion_def nth_js_def render_inputs_def
      option_radios_def quiz3_def q_choice_def showSuccess_def showLoading_def Let_def
      savedAnswer_def string_of_nat.simps digit_char_def upt_rec)

lemma answered3_app:
  "quiz answered3 = Some quiz3" "currentQuestionIndex answered3 = 0"
  "answers answered3 0 = Some (Str ''1'')"
  by (simp_all add: answered3_def clickRadio_def loaded3_radios loaded3_app saveAnswer_def upt_rec)

text \<open>
  C5. After a generation that delivers a non-empty list of questions \<open>qs\<close>, whatever
  the state before: \<open>quiz\<close> is \<open>qs\<close>, \<open>answers\<close> is empty, \<open>currentQuestionIndex\<close> is 0,
  and the current question is element 0 of \<open>qs\<close>.
\<close>

theorem load_sets_quiz_index_answers:
  "qs \<noteq> [] \<longrightarrow>
     quiz (generateQuiz_settle (Response True (JsonObject (Some qs))) s) = Some qs
     \<and> answers (generateQuiz_settle (Response True (JsonObject (Some qs))) s) = Map.empty
     \<and> currentQuestionIndex (generateQuiz_settle (Response True (JsonObject (Some qs))) s) = 0
     \<and> currentQuestion (generateQuiz_settle (Response True (JsonObject (Some qs))) s) = Some (qs ! 0)"
  by (cases qs) (simp_all add: settle_loaded currentQuestion_def nth_js_def)

text \<open>
  C5 at \<open>quiz3\<close>, loaded over a session that already had an answer.
\<close>

theorem load_sets_quiz_index_answers_witness:
  "quiz3 \<noteq> []
   \<and> quiz (generateQuiz_settle (Response True (JsonObject (Some quiz3))) answered3) = Some quiz3
   \<and> answers (generateQuiz_settle (Response True (JsonObject (Some quiz3))) answered3) 0 = None
   \<and> currentQuestionIndex (generateQuiz_settle (Response True (JsonObject (Some quiz3))) answered3) = 0
   \<and> currentQuestion (generateQuiz_settle (Response True (JsonObject (Some quiz3))) answered3)
        = Some q_choice"
  using load_sets_quiz_index_answers [of quiz3 answered3]
  by (simp add: quiz3_def)

text \<open>
  C6. After \<open>retakeQuiz\<close> the answers have no entry, the index is 0 and \<open>quiz\<close> is the
  list it was before the call.
\<close>

theorem retake_clears_answers:
  "answers (world_of (retakeQuiz s)) = Map.empty
   \<and> currentQuestionIndex (world_of (retakeQuiz s)) = 0
   \<and> quiz (world_of (retakeQuiz s)) = quiz s"
  by (simp add: retakeQuiz_def show_keeps)

text \<open>
  C6 at a session with one recorded answer.
\<close>

theorem retake_clears_answers_witness:
  "answers answered3 0 = Some (Str ''1'')
   \<and> answers (world_of (retakeQuiz answered3)) 0 = None
   \<and> currentQuestionIndex (world_of (retakeQuiz answered3)) = 0
   \<and> quiz (world_of (retakeQuiz answered3)) = Some quiz3"
  using retake_clears_answers [of answered3]
  by (simp add: answered3_app)

section \<open>A generation that fails or delivers nothing\<close>

lemma settle_empty_message:
  "errorMessage (generateQuiz_settle (Response True (JsonObject (Some []))) s)
     = Some (Message ''No questions generated'')"
  "successMessage (generateQuiz_settle (Response True (JsonObject (Some []))) s)
     = Some ''Quiz generated successfully!''"
  by (simp_all add: generateQuiz_settle_def generateQuiz_try_def displayQuiz_def
      displayQuestion_def updateNavigation_def showError_def showSuccess_def showLoading_def Let_def)

text \<open>
  C2 as stated fails: a session holds \<open>quiz3\<close> and one recorded answer; a generation
  then completes with the empty list. The error is shown, but \<open>quiz\<close> is now the empty
  list and the recorded answer is gone, since lines 166 to 168 assign before
  \<open>displayQuestion\<close> looks at the length.
\<close>

theorem empty_result_clears_quiz:
  "quiz answered3 = Some quiz3
   \<and> answers answered3 0 = Some (Str ''1'')
   \<and> quiz (generateQuiz_settle (Response True (JsonObject (Some []))) answered3) = Some []
   \<and> answers (generateQuiz_settle (Response True (JsonObject (Some []))) answered3) 0 = None
   \<and> errorMessage (generateQuiz_settle (Response True (JsonObject (Some []))) answered3)
       = Some (Message ''No questions generated'')"
  by (simp add: answered3_app settle_loaded settle_empty_message)

text \<open>
  A body that parses but holds no list of questions (a number, a string, a boolean, an
  array, or an object without \<open>quiz\<close>) is no failure for the script: nothing throws before
  lines 166 to 168, so the session is reset as for an empty list.
\<close>

lemma body_without_quiz_resets:
  assumes "body = JsonOther \<or> body = JsonObject None"
  shows "quiz (generateQuiz_settle (Response True body) s) = None"
    and "currentQuestionIndex (generateQuiz_settle (Response True body) s) = 0"
    and "answers (generateQuiz_settle (Response True body) s) = Map.empty"
  using assms by (auto simp add: settle_other settle_loaded)

text \<open>
  C2, amended. When the generation fails, that is when \<open>fetch\<close> rejects, the response is
  not \<open>ok\<close>, the body cannot be parsed as JSON, or the body is JSON \<open>null\<close>, the message
  of the error is shown and \<open>quiz\<close>, \<open>answers\<close> and \<open>currentQuestionIndex\<close> are what they
  were. When it completes with an empty list of questions, the error
  \<open>No questions generated\<close> is shown.
\<close>

theorem failed_generation_keeps_quiz:
  "(r = FetchFailed m \<or> r = Response False b \<or> r = Response True (Unparsable m)
      \<or> r = Response True JsonNull \<longrightarrow>
      quiz (generateQuiz_settle r s) = quiz s
      \<and> answers (generateQuiz_settle r s) = answers s
      \<and> currentQuestionIndex (generateQuiz_settle r s) = currentQuestionIndex s
      \<and> errorMessage (generateQuiz_settle r s) =
           Some (case r of FetchFailed m' \<Rightarrow> m'
                 | Response ok body \<Rightarrow>
                     if \<not> ok then Message ''Failed to generate quiz''
                     else (case body of Unparsable m' \<Rightarrow> m' | _ \<Rightarrow> EngineMessage)))
   \<and> errorMessage (generateQuiz_settle (Response True (JsonObject (Some []))) s)
        = Some (Message ''No questions generated'')"
proof -
  have "r = FetchFailed m \<or> r = Response False b \<or> r = Response True (Unparsable m)
      \<or> r = Response True JsonNull \<longrightarrow>
      quiz (generateQuiz_settle r s) = quiz s
      \<and> answers (generateQuiz_settle r s) = answers s
      \<and> currentQuestionIndex (generateQuiz_settle r s) = currentQuestionIndex s
      \<and> errorMessage (generateQuiz_settle r s) =
           Some (case r of FetchFailed m' \<Rightarrow> m'
                 | Response ok body \<Rightarrow>
                     if \<not> ok then Message ''Failed to generate quiz''
                     else (case body of Unparsable m' \<Rightarrow> m' | _ \<Rightarrow> EngineMessage))"
    by (auto simp add: generateQuiz_settle_def generateQuiz_try_def showLoading_def showError_def)
  then show ?thesis
    by (simp only: settle_empty_message simp_thms)
qed

text \<open>
  C2, amended, at a response that is not \<open>ok\<close>.
\<close>

theorem failed_generation_keeps_quiz_witness:
  "quiz (generateQuiz_settle (Response False JsonNull) answered3) = Some quiz3
   \<and> answers (generateQuiz_settle (Response False JsonNull) answered3) 0 = Some (Str ''1'')
   \<and> currentQuestionIndex (generateQuiz_settle (Response False JsonNull) answered3) = 0
   \<and> errorMessage (generateQuiz_settle (Response False JsonNull) answered3)
        = Some (Message ''Failed to generate quiz'')"
  using failed_generation_keeps_quiz [of "Response False JsonNull" EngineMessage JsonNull answered3]
  by (simp add: answered3_app)

section \<open>Export\<close>

lemma iso_examples:
  "toISOString 1700000000000 = ''2023-11-14T22:13:20.000Z''"
  "toISOString 1700000060000 = ''2023-11-14T22:14:20.000Z''"
  by code_simp+

text \<open>
  C7 as stated fails: one loaded session, exported at two different clock readings, gives
  two different timestamps, so the timestamp is not one captured when the quiz was loaded.
\<close>

theorem export_timestamp_is_export_time:
  "loaded3 = generateQuiz_settle (Response True (JsonObject (Some quiz3))) uploaded
   \<and> timestamp (fst (downloadQuiz 1700000000000 loaded3)) = ''2023-11-14T22:13:20.000Z''
   \<and> timestamp (fst (downloadQuiz 1700000060000 loaded3)) = ''2023-11-14T22:14:20.000Z''
   \<and> timestamp (fst (downloadQuiz 1700000000000 loaded3))
       \<noteq> timestamp (fst (downloadQuiz 1700000060000 loaded3))"
  by (simp add: downloadQuiz_def iso_examples loaded3_def)

text \<open>
  C7, amended. The exported record has \<open>questions\<close> equal to the current \<open>quiz\<close>,
  \<open>answers\<close> equal to the current answer map, and as \<open>timestamp\<close> the ISO-8601 text of
  the clock at the moment of the export call; no generation that settled before changes
  it. The state is left as it was apart from the success message.
\<close>

theorem export_record:
  "questions (fst (downloadQuiz now s)) = quiz s
   \<and> export_answers (fst (downloadQuiz now s)) = answers s
   \<and> timestamp (fst (downloadQuiz now s)) = toISOString now
   \<and> timestamp (fst (downloadQuiz now (generateQuiz_settle r s))) = timestamp (fst (downloadQuiz now s))
   \<and> snd (downloadQuiz now s) = s\<lparr>successMessage := Some ''Quiz downloaded successfully!''\<rparr>"
  by (simp add: downloadQuiz_def showSuccess_def)

text \<open>
  C7, amended, at a session with one recorded answer.
\<close>

theorem export_record_witness:
  "questions (fst (downloadQuiz 1700000000000 answered3)) = Some quiz3
   \<and> export_answers (fst (downloadQuiz 1700000000000 answered3)) 0 = Some (Str ''1'')
   \<and> timestamp (fst (downloadQuiz 1700000000000 answered3)) = ''2023-11-14T22:13:20.000Z''"
  using export_record [of 1700000000000 answered3]
  by (simp add: answered3_app iso_examples)

section \<open>No quiz loaded\<close>

text \<open>
  C8 as stated fails: with no quiz loaded, \<open>nextQuestion\<close> throws out of its listener
  (it reads \<open>appState.quiz.length\<close>), and \<open>previousQuestion\<close> returns having done nothing.
\<close>

theorem navigation_without_quiz:
  "quiz initial = None
   \<and> nextQuestion initial = Threw EngineMessage initial
   \<and> previousQuestion initial = Returned initial"
  by (simp add: nextQuestion_def previousQuestion_def initial_def)

lemma step_index_without_quiz:
  assumes "quiz s = None \<longrightarrow> currentQuestionIndex s = 0"
  shows "quiz (step e s) = None \<longrightarrow> currentQuestionIndex (step e s) = 0"
proof (cases e)
  case (Settle r)
  show ?thesis
  proof (cases "(\<exists>q. r = Response True (JsonObject q)) \<or> r = Response True JsonOther")
    case True
    then show ?thesis using Settle by (auto simp add: settle_loaded settle_other)
  next
    case False
    then have "quiz (generateQuiz_settle r s) = quiz s
               \<and> currentQuestionIndex (generateQuiz_settle r s) = currentQuestionIndex s"
      by (auto simp add: generateQuiz_settle_def generateQuiz_try_def showLoading_def showError_def
            split: response.splits json_body.splits)
    then show ?thesis using Settle assms by simp
  qed
next
  case PreviousQuestion
  then show ?thesis using assms
    by (auto simp add: previousQuestion_def Let_def show_keeps saveAnswer_keeps)
next
  case NextQuestion
  then show ?thesis using assms
    by (auto simp add: nextQuestion_def Let_def show_keeps saveAnswer_keeps split: option.splits)
next
  case RetakeQuiz
  then show ?thesis by (simp add: retakeQuiz_def show_keeps)
qed (use assms in \<open>simp_all add: addFiles_def removeFile_def clearFiles_def displayFiles_def
      handleGenerateQuiz_def showError_def generateQuiz_send_def showLoading_def Let_def
      clickRadio_def inputText_def saveAnswer_keeps downloadQuiz_def showSuccess_def
      split: option.splits\<close>)

lemma run_index_without_quiz:
  "(quiz s = None \<longrightarrow> currentQuestionIndex s = 0) \<Longrightarrow>
   quiz (run es s) = None \<longrightarrow> currentQuestionIndex (run es s) = 0"
proof (induction es arbitrary: s)
  case Nil
  then show ?case by simp
next
  case (Cons e es)
  from Cons.prems have "quiz (step e s) = None \<longrightarrow> currentQuestionIndex (step e s) = 0"
    by (rule step_index_without_quiz)
  then show ?case using Cons.IH by simp
qed

text \<open>
  C8, amended. With no quiz loaded there is no current question, and \<open>displayQuestion\<close>
  shows the error \<open>No questions generated\<close> and returns, changing nothing else;
  \<open>previousQuestion\<close> at index 0, which is the index of every such state the page can
  reach, returns with the state untouched.
\<close>

theorem no_quiz_display_reports_error:
  "quiz s = None \<longrightarrow>
     currentQuestion s = None
     \<and> displayQuestion s = Returned (s\<lparr>errorMessage := Some (Message ''No questions generated'')\<rparr>)
     \<and> (currentQuestionIndex s = 0 \<longrightarrow> previousQuestion s = Returned s)
     \<and> (s = run es initial \<longrightarrow> previousQuestion s = Returned s)"
proof -
  have "quiz (run es initial) = None \<longrightarrow> currentQuestionIndex (run es initial) = 0"
    by (rule run_index_without_quiz) (simp add: initial_def)
  then show ?thesis
    by (auto simp add: currentQuestion_def displayQuestion_def showError_def previousQuestion_def)
qed

text \<open>
  C8, amended, at the initial page.
\<close>

theorem no_quiz_display_reports_error_witness:
  "quiz (run [AddFiles [notes_pdf], GenerateQuiz, Settle (Response False JsonNull)] initial) = None
   \<and> displayQuestion initial =
        Returned (initial\<lparr>errorMessage := Some (Message ''No questions generated'')\<rparr>)
   \<and> previousQuestion initial = Returned initial"
  using no_quiz_display_reports_error [of initial "[]"]
  by (simp add: initial_def generateQuiz_settle_def generateQuiz_try_def showLoading_def
      showError_def generateQuiz_send_def addFiles_def displayFiles_def Let_def)

section \<open>Requests in flight\<close>

lemma show_isGenerating:
  "isGenerating (world_of (and_then (displayQuestion s) updateNavigation)) = isGenerating s"
proof -
  have a: "isGenerating (world_of (displayQuestion s)) = isGenerating s"
    by (simp add: displayQuestion_def showError_def Let_def split: option.splits prod.splits)
  have b: "isGenerating (world_of (updateNavigation s')) = isGenerating s'" for s'
    by (simp add: updateNavigation_def Let_def split: option.splits)
  show ?thesis using a by (cases "displayQuestion s") (simp_all add: b)
qed

lemma saveAnswer_isGenerating: "isGenerating (saveAnswer s) = isGenerating s"
  by (simp add: saveAnswer_def split: list.splits option.splits)

lemma settle_isGenerating: "isGenerating (generateQuiz_settle r s) = isGenerating s"
proof -
  have "isGenerating (world_of (and_then (displayQuiz s') (\<lambda>s'. Returned (showSuccess m s'))))
          = isGenerating s'" for s' m
    using show_isGenerating [of "s'\<lparr>quizSectionShown := True\<rparr>"]
    by (cases "displayQuiz s'") (simp_all add: showSuccess_def displayQuiz_def)
  then have "isGenerating (world_of (generateQuiz_try r s)) = isGenerating s"
    by (simp add: generateQuiz_try_def split: response.splits json_body.splits)
  then show ?thesis
    by (cases "generateQuiz_try r s")
       (simp_all add: generateQuiz_settle_def showLoading_def showError_def)
qed

lemma step_isGenerating: "isGenerating (step e s) = isGenerating s"
  by (cases e)
     (simp_all add: addFiles_def removeFile_def clearFiles_def displayFiles_def
        handleGenerateQuiz_def showError_def generateQuiz_send_def showLoading_def Let_def
        settle_isGenerating clickRadio_def inputText_def saveAnswer_isGenerating
        previousQuestion_def nextQuestion_def retakeQuiz_def show_isGenerating
        downloadQuiz_def showSuccess_def split: option.splits)

lemma run_isGenerating: "isGenerating (run es s) = isGenerating s"
  by (induction es arbitrary: s) (simp_all add: step_isGenerating)

lemma uploaded_files: "files uploaded = [notes_pdf]"
  by (simp add: uploaded_def addFiles_files valid_examples initial_def)

text \<open>
  C1 as stated fails: with a request in flight (the overlay is shown), a second call of
  \<open>generateQuiz\<close> does exactly what the first did and shows no error; when both requests
  settle, the quiz delivered to the first is replaced by the quiz delivered to the second.
\<close>

theorem second_request_is_accepted:
  "files uploaded = [notes_pdf]
   \<and> loadingOverlayShown (fst (generateQuiz_send uploaded))
   \<and> generateQuiz_send (fst (generateQuiz_send uploaded)) = generateQuiz_send uploaded
   \<and> errorMessage (fst (generateQuiz_send (fst (generateQuiz_send uploaded)))) = None
   \<and> quiz (generateQuiz_settle (Response True (JsonObject (Some [q_bool])))
             (fst (generateQuiz_send uploaded))) = Some [q_bool]
   \<and> quiz (generateQuiz_settle (Response True (JsonObject (Some quiz3)))
             (generateQuiz_settle (Response True (JsonObject (Some [q_bool])))
                (fst (generateQuiz_send (fst (generateQuiz_send uploaded)))))) = Some quiz3"
  by (simp add: settle_loaded uploaded_files)
     (simp add: generateQuiz_send_def showLoading_def uploaded_def addFiles_def valid_examples
        displayFiles_def initial_def)

text \<open>
  C1, amended. \<open>generateQuiz\<close> has no guard against a request in flight: a call shows
  no error and sends the same request whatever the overlay and \<open>isGenerating\<close> are, a
  second call leaves the state the first call made, and no run of the page changes
  \<open>isGenerating\<close>. Every response that delivers a quiz replaces \<open>quiz\<close>, resets the
  index to 0 and empties the answers, whatever settled before it: the last one wins.
\<close>

theorem generation_has_no_guard:
  "errorMessage (fst (generateQuiz_send s)) = errorMessage s
   \<and> snd (generateQuiz_send (s\<lparr>loadingOverlayShown := b, isGenerating := g\<rparr>))
        = snd (generateQuiz_send s)
   \<and> generateQuiz_send (fst (generateQuiz_send s)) = generateQuiz_send s
   \<and> isGenerating (run es s) = isGenerating s
   \<and> quiz (generateQuiz_settle (Response True (JsonObject q2)) (generateQuiz_settle r1 s)) = q2
   \<and> currentQuestionIndex
        (generateQuiz_settle (Response True (JsonObject q2)) (generateQuiz_settle r1 s)) = 0
   \<and> answers (generateQuiz_settle (Response True (JsonObject q2)) (generateQuiz_settle r1 s))
        = Map.empty"
  by (simp add: settle_loaded run_isGenerating)
     (simp add: generateQuiz_send_def showLoading_def)

text \<open>
  C1, amended, at two calls in a row.
\<close>

theorem generation_has_no_guard_witness:
  "errorMessage (fst (generateQuiz_send (fst (generateQuiz_send uploaded)))) = None
   \<and> req_files (snd (generateQuiz_send (fst (generateQuiz_send uploaded)))) = [notes_pdf]
   \<and> \<not> isGenerating (run [GenerateQuiz, GenerateQuiz] uploaded)
   \<and> quiz (generateQuiz_settle (Response True (JsonObject (Some quiz3)))
             (generateQuiz_settle (Response True (JsonObject (Some [q_bool])))
                (fst (generateQuiz_send uploaded)))) = Some quiz3"
  using generation_has_no_guard
          [of "fst (generateQuiz_send uploaded)" True False "[GenerateQuiz, GenerateQuiz]"
              "Some quiz3" "Response True (JsonObject (Some [q_bool]))"]
        generation_has_no_guard
          [of uploaded True False "[GenerateQuiz, GenerateQuiz]"
              "Some quiz3" "Response True (JsonObject (Some [q_bool]))"]
  by (simp add: generateQuiz_send_def showLoading_def uploaded_def addFiles_def valid_examples
        displayFiles_def initial_def)

section \<open>Navigation\<close>

lemma navigate1_index:
  assumes "quiz s = Some qs"
  shows "currentQuestionIndex (world_of (navigate1 d s)) =
           (case d of
              Back \<Rightarrow> if currentQuestionIndex s > 0 then currentQuestionIndex s - 1
                      else currentQuestionIndex s
            | Forward \<Rightarrow> if currentQuestionIndex s < int (length qs) - 1
                         then currentQuestionIndex s + 1 else currentQuestionIndex s)"
  using assms
  by (cases d)
     (simp_all add: previousQuestion_def nextQuestion_def Let_def show_keeps saveAnswer_keeps)
















lemma quiz3_has_options: "list_all has_options quiz3" "length quiz3 = 3"
  by (simp_all add: quiz3_def has_options_def choice_question_def q_choice_def q_bool_def q_short_def)


section \<open>Answers across navigation\<close>

lemma saveAnswer_idem: "saveAnswer (saveAnswer s) = saveAnswer s"
  by (simp add: saveAnswer_def split: list.splits option.splits)

lemma saveAnswer_elsewhere:
  "j \<noteq> currentQuestionIndex s \<Longrightarrow> answers (saveAnswer s) j = answers s j"
  by (simp add: saveAnswer_def split: list.splits option.splits)

lemma nextQuestion_moves_or_not:
  "world_of (nextQuestion s) = s
   \<or> (currentQuestionIndex (world_of (nextQuestion s)) = currentQuestionIndex s + 1
       \<and> answers (world_of (nextQuestion s)) = answers (saveAnswer s))"
  by (simp add: nextQuestion_def Let_def show_keeps saveAnswer_keeps split: option.splits)

lemma previousQuestion_moves_or_not:
  "world_of (previousQuestion s) = s
   \<or> (currentQuestionIndex (world_of (previousQuestion s)) = currentQuestionIndex s - 1
       \<and> answers (world_of (previousQuestion s)) = answers (saveAnswer s))"
  by (simp add: previousQuestion_def Let_def show_keeps saveAnswer_keeps)

lemma round_trip_answer:
  assumes fx: "saveAnswer s = s" and v: "answers s (currentQuestionIndex s) = Some v"
    and f: "world_of (f s) = s
            \<or> (currentQuestionIndex (world_of (f s)) = currentQuestionIndex s + k
                \<and> answers (world_of (f s)) = answers (saveAnswer s))"
    and g: "world_of (g (world_of (f s))) = world_of (f s)
            \<or> answers (world_of (g (world_of (f s)))) = answers (saveAnswer (world_of (f s)))"
    and k: "k \<noteq> 0"
  shows "answers (world_of (g (world_of (f s)))) (currentQuestionIndex s) = Some v"
proof -
  let ?w = "world_of (f s)"
  have w: "answers ?w (currentQuestionIndex s) = Some v" using f v fx by auto
  have sw: "answers (saveAnswer ?w) (currentQuestionIndex s) = Some v"
  proof (cases "?w = s")
    case True
    then show ?thesis using fx v by simp
  next
    case False
    then have "currentQuestionIndex ?w = currentQuestionIndex s + k" using f by blast
    then have "currentQuestionIndex s \<noteq> currentQuestionIndex ?w" using k by simp
    then show ?thesis using w by (simp add: saveAnswer_elsewhere)
  qed
  show ?thesis using g w sw by auto
qed

lemma next_then_previous_keeps_answer:
  assumes "saveAnswer s = s" "answers s (currentQuestionIndex s) = Some v"
  shows "answers (world_of (previousQuestion (world_of (nextQuestion s)))) (currentQuestionIndex s)
           = Some v"
  using assms nextQuestion_moves_or_not [of s]
    previousQuestion_moves_or_not [of "world_of (nextQuestion s)"]
  by (intro round_trip_answer [of s v nextQuestion 1 previousQuestion]) auto

lemma previous_then_next_keeps_answer:
  assumes "saveAnswer s = s" "answers s (currentQuestionIndex s) = Some v"
  shows "answers (world_of (nextQuestion (world_of (previousQuestion s)))) (currentQuestionIndex s)
           = Some v"
  using assms previousQuestion_moves_or_not [of s]
    nextQuestion_moves_or_not [of "world_of (previousQuestion s)"]
  by (intro round_trip_answer [of s v previousQuestion "- 1" nextQuestion]) auto

lemma next_then_previous_index:
  assumes "quiz s = Some qs" "0 \<le> currentQuestionIndex s"
    "currentQuestionIndex s < int (length qs) - 1"
  shows "currentQuestionIndex (world_of (previousQuestion (world_of (nextQuestion s))))
           = currentQuestionIndex s"
  using assms navigate1_index [of s qs Forward]
    navigate1_index [of "world_of (nextQuestion s)" qs Back]
  by (auto simp add: nextQuestion_keeps)

lemma previous_then_next_index:
  assumes "quiz s = Some qs" "0 < currentQuestionIndex s"
    "currentQuestionIndex s < int (length qs)"
  shows "currentQuestionIndex (world_of (nextQuestion (world_of (previousQuestion s))))
           = currentQuestionIndex s"
  using assms navigate1_index [of s qs Back]
    navigate1_index [of "world_of (previousQuestion s)" qs Forward]
  by (auto simp add: previousQuestion_keeps)

text \<open>
  C4. Once \<open>saveAnswer\<close> has recorded \<open>v\<close> at the current index \<open>i\<close>, pressing Next
  then Previous, or Previous then Next, leaves \<open>answers[i]\<close> equal to \<open>v\<close>; and when the
  first press can move, the index is back at \<open>i\<close>.
\<close>

theorem answer_survives_round_trip:
  "s = saveAnswer s0 \<and> answers s (currentQuestionIndex s) = Some v \<longrightarrow>
     answers (world_of (previousQuestion (world_of (nextQuestion s)))) (currentQuestionIndex s)
       = Some v
     \<and> answers (world_of (nextQuestion (world_of (previousQuestion s)))) (currentQuestionIndex s)
       = Some v
     \<and> (quiz s = Some qs \<and> 0 \<le> currentQuestionIndex s
          \<and> currentQuestionIndex s < int (length qs) - 1 \<longrightarrow>
        currentQuestionIndex (world_of (previousQuestion (world_of (nextQuestion s))))
          = currentQuestionIndex s)
     \<and> (quiz s = Some qs \<and> 0 < currentQuestionIndex s
          \<and> currentQuestionIndex s < int (length qs) \<longrightarrow>
        currentQuestionIndex (world_of (nextQuestion (world_of (previousQuestion s))))
          = currentQuestionIndex s)"
proof (intro impI)
  assume a: "s = saveAnswer s0 \<and> answers s (currentQuestionIndex s) = Some v"
  then have fx: "saveAnswer s = s" using saveAnswer_idem [of s0] by simp
  from a have v: "answers s (currentQuestionIndex s) = Some v" by (rule conjunct2)
  have 1: "answers (world_of (previousQuestion (world_of (nextQuestion s)))) (currentQuestionIndex s)
       = Some v"
    using fx v by (rule next_then_previous_keeps_answer)
  have 2: "answers (world_of (nextQuestion (world_of (previousQuestion s)))) (currentQuestionIndex s)
       = Some v"
    using fx v by (rule previous_then_next_keeps_answer)
  have 3: "quiz s = Some qs \<and> 0 \<le> currentQuestionIndex s
          \<and> currentQuestionIndex s < int (length qs) - 1 \<longrightarrow>
        currentQuestionIndex (world_of (previousQuestion (world_of (nextQuestion s))))
          = currentQuestionIndex s"
    using next_then_previous_index [of s qs] by blast
  have 4: "quiz s = Some qs \<and> 0 < currentQuestionIndex s
          \<and> currentQuestionIndex s < int (length qs) \<longrightarrow>
        currentQuestionIndex (world_of (nextQuestion (world_of (previousQuestion s))))
          = currentQuestionIndex s"
    using previous_then_next_index [of s qs] by blast
  from 1 2 3 4 show "answers (world_of (previousQuestion (world_of (nextQuestion s)))) (currentQuestionIndex s)
       = Some v
     \<and> answers (world_of (nextQuestion (world_of (previousQuestion s)))) (currentQuestionIndex s)
       = Some v
     \<and> (quiz s = Some qs \<and> 0 \<le> currentQuestionIndex s
          \<and> currentQuestionIndex s < int (length qs) - 1 \<longrightarrow>
        currentQuestionIndex (world_of (previousQuestion (world_of (nextQuestion s))))
          = currentQuestionIndex s)
     \<and> (quiz s = Some qs \<and> 0 < currentQuestionIndex s
          \<and> currentQuestionIndex s < int (length qs) \<longrightarrow>
        currentQuestionIndex (world_of (nextQuestion (world_of (previousQuestion s))))
          = currentQuestionIndex s)"
    by simp
qed


lemma answered3_saved: "answered3 = saveAnswer answered3"
proof -
  have "answered3 = saveAnswer (loaded3\<lparr>radios := [(''0'', False), (''1'', True), (''2'', False)]\<rparr>)"
    by (simp add: answered3_def clickRadio_def loaded3_radios upt_rec)
  then show ?thesis using saveAnswer_idem by metis
qed

text \<open>
  C4 at the first question of \<open>quiz3\<close>, second option chosen.
\<close>

theorem answer_survives_round_trip_witness:
  "answered3 = saveAnswer answered3
   \<and> currentQuestionIndex answered3 = 0
   \<and> answers answered3 0 = Some (Str ''1'')
   \<and> quiz answered3 = Some quiz3
   \<and> answers (world_of (previousQuestion (world_of (nextQuestion answered3)))) 0 = Some (Str ''1'')
   \<and> answers (world_of (nextQuestion (world_of (previousQuestion answered3)))) 0 = Some (Str ''1'')
   \<and> currentQuestionIndex (world_of (previousQuestion (world_of (nextQuestion answered3)))) = 0"
  using answer_survives_round_trip [of answered3 answered3 "Str ''1''" quiz3] answered3_saved
  by (simp add: answered3_app quiz3_has_options)

section \<open>Restoring a saved choice\<close>

























end
